theory Spec2Isabelle
  imports Main
begin

section \<open>Values of the runtime\<close>

text \<open>
  A value as the handlers see it: a decoded response body, or the result of reading a
  property. Numbers are restricted to the integers (page numbers, counts, identifiers);
  fractions, \<open>NaN\<close> and the infinities are outside the model. An object is the list of
  its own properties in insertion order, with distinct keys.
\<close>

datatype jsval =
    JUndefined
  | JNull
  | JBool bool
  | JNum int
  | JStr string
  | JArr "jsval list"
  | JObj "(string \<times> jsval) list"

text \<open>\<open>Number.prototype.toString\<close> on an integer: its decimal digits, with a sign.\<close>

fun digits :: "nat \<Rightarrow> string" where
  "digits n =
     (if n < 10 then [''0123456789'' ! n]
      else digits (n div 10) @ [''0123456789'' ! (n mod 10)])"

declare digits.simps [simp del]

definition toString :: "int \<Rightarrow> string" where
  "toString n = (if n < 0 then ''-'' @ digits (nat (- n)) else digits (nat n))"

text \<open>\<open>Array.prototype.join\<close> on strings.\<close>

fun join :: "string \<Rightarrow> string list \<Rightarrow> string" where
  "join sep [] = []"
| "join sep [x] = x"
| "join sep (x # y # ys) = x @ sep @ join sep (y # ys)"

text \<open>The conversion a template literal applies to an interpolated value.\<close>

fun to_display :: "jsval \<Rightarrow> string" where
  "to_display JUndefined = ''undefined''"
| "to_display JNull = ''null''"
| "to_display (JBool b) = (if b then ''true'' else ''false'')"
| "to_display (JNum n) = toString n"
| "to_display (JStr s) = s"
| "to_display (JArr xs) =
     join '','' (map (\<lambda>x. if x = JUndefined \<or> x = JNull then [] else to_display x) xs)"
| "to_display (JObj kvs) = ''[object Object]''"

text \<open>Truthiness, as \<open>if (v)\<close>, \<open>!v\<close> and \<open>v || w\<close> test it.\<close>

fun truthy :: "jsval \<Rightarrow> bool" where
  "truthy JUndefined = False"
| "truthy JNull = False"
| "truthy (JBool b) = b"
| "truthy (JNum n) = (n \<noteq> 0)"
| "truthy (JStr s) = (s \<noteq> [])"
| "truthy (JArr xs) = True"
| "truthy (JObj kvs) = True"

text \<open>
  An exception value: its \<open>message\<close>, and for a failure of the HTTP client the body of
  the upstream's answer (\<open>error.response?.data\<close>) when there was one.
\<close>

record js_error =
  message :: string
  response_data :: "jsval option"

text \<open>
  Reading a property. On \<open>undefined\<close> and \<open>null\<close> the read throws a \<open>TypeError\<close>;
  on any other value that does not own the property it gives \<open>undefined\<close> (none of the
  names the handlers read, \<open>data\<close>, \<open>id\<close>, \<open>attributes\<close>, \<open>title\<close>, \<open>meta\<close>, is inherited).
\<close>

definition type_error :: "string \<Rightarrow> string \<Rightarrow> js_error" where
  "type_error what k =
     \<lparr>message = ''Cannot read properties of '' @ what @ '' (reading '' @ [CHR 0x27] @ k @ [CHR 0x27] @ '')'',
      response_data = None\<rparr>"

fun get_prop :: "jsval \<Rightarrow> string \<Rightarrow> js_error + jsval" where
  "get_prop JUndefined k = Inl (type_error ''undefined'' k)"
| "get_prop JNull k = Inl (type_error ''null'' k)"
| "get_prop (JObj kvs) k = Inr (case map_of kvs k of Some v \<Rightarrow> v | None \<Rightarrow> JUndefined)"
| "get_prop v k = Inr JUndefined"

text \<open>Optional chaining \<open>v?.k\<close>: \<open>undefined\<close> where \<open>v\<close> is \<open>undefined\<close> or \<open>null\<close>.\<close>

fun get_opt :: "jsval \<Rightarrow> string \<Rightarrow> jsval" where
  "get_opt (JObj kvs) k = (case map_of kvs k of Some v \<Rightarrow> v | None \<Rightarrow> JUndefined)"
| "get_opt v k = JUndefined"

text \<open>\<open>String.prototype.includes\<close>.\<close>

fun str_includes :: "string \<Rightarrow> string \<Rightarrow> bool" where
  "str_includes [] sub = (sub = [])"
| "str_includes (c # cs) sub = (take (length sub) (c # cs) = sub \<or> str_includes cs sub)"

section \<open>Query parameters\<close>

text \<open>
  \<open>Record<string, string>\<close>: the pairs in insertion order. Assigning to a key that is
  there replaces its value in place; assigning to a new key appends it.
\<close>

type_synonym params = "(string \<times> string) list"

fun put :: "string \<Rightarrow> string \<Rightarrow> params \<Rightarrow> params" where
  "put k v [] = [(k, v)]"
| "put k v ((k', v') # ps) = (if k' = k then (k, v) # ps else (k', v') # put k v ps)"

record pagination =
  page :: "int option"
  per_page :: "int option"

record job_filters = pagination +
  search :: "string option"
  status :: "string option"
  employment_type :: "string option"
  workplace_type :: "string option"

record application_filters = pagination +
  job_id :: "string option"
  job_visibility :: "string option"
  stage_id :: "string option"

text \<open>
  \<open>if (filters.f) params[k] = filters.f\<close> for a string field, and
  \<open>if (filters.f) params[k] = filters.f.toString()\<close> for a number field: the
  assignment happens when the field is there and truthy.
\<close>

fun put_str :: "string \<Rightarrow> string option \<Rightarrow> params \<Rightarrow> params" where
  "put_str k None ps = ps"
| "put_str k (Some s) ps = (if s \<noteq> [] then put k s ps else ps)"

fun put_num :: "string \<Rightarrow> int option \<Rightarrow> params \<Rightarrow> params" where
  "put_num k None ps = ps"
| "put_num k (Some n) ps = (if n \<noteq> 0 then put k (toString n) ps else ps)"

definition getJobs_params :: "job_filters \<Rightarrow> params" where
  "getJobs_params filters =
     (let p0 = [];
          p1 = put_str ''filter[search]'' (search filters) p0;
          p2 = put_str ''filter[status]'' (status filters) p1;
          p3 = put_str ''filter[employment_type]'' (employment_type filters) p2;
          p4 = put_str ''filter[workplace_type]'' (workplace_type filters) p3;
          p5 = put_num ''page[number]'' (page filters) p4;
          p6 = put_num ''page[size]'' (per_page filters) p5
      in p6)"

definition getApplications_params :: "application_filters \<Rightarrow> params" where
  "getApplications_params filters =
     (let p0 = [];
          p1 = put_str ''filter[job_id]'' (job_id filters) p0;
          p2 = put_str ''filter[job_visibility]'' (job_visibility filters) p1;
          p3 = put_str ''filter[stage_id]'' (stage_id filters) p2;
          p4 = put_num ''page'' (page filters) p3;
          p5 = put_num ''per_page'' (per_page filters) p4;
          p6 = put ''extra_fields[applications]'' ''attachments'' p5;
          p7 = put ''stats[total]'' ''count'' p6
      in p7)"

section \<open>The API adapter\<close>

text \<open>
  What the program does to the outside: the HTTP requests it issues, in order, and the
  lines it writes with \<open>console.error\<close> (a label and the value logged).
\<close>

datatype request = GET string params | POST string jsval

record world =
  requests :: "request list"
  console :: "(string \<times> jsval) list"

text \<open>
  The HTTP client and the upstream behind it, as the adapter sees them: given the
  requests issued so far and the next one, either the promise rejects with an error
  (transport failure, or a status the client refuses) or it resolves and
  \<open>response.data\<close> is the value given.
\<close>

type_synonym upstream = "request list \<Rightarrow> request \<Rightarrow> js_error + jsval"

definition send :: "upstream \<Rightarrow> request \<Rightarrow> world \<Rightarrow> (js_error + jsval) \<times> world" where
  "send api req w = (api (requests w) req, w\<lparr>requests := requests w @ [req]\<rparr>)"

definition console_error :: "string \<Rightarrow> jsval \<Rightarrow> world \<Rightarrow> world" where
  "console_error label v w = w\<lparr>console := console w @ [(label, v)]\<rparr>"

text \<open>\<open>error.response?.data || error.message\<close>\<close>

definition logged :: "js_error \<Rightarrow> jsval" where
  "logged error =
     (case response_data error of
        Some d \<Rightarrow> if truthy d then d else JStr (message error)
      | None \<Rightarrow> JStr (message error))"

text \<open>
  The body shared by the adapter's functions: \<open>try { const response = await ...;
  return response.data } catch (error) { console.error(label, ...); throw error }\<close>.
\<close>

definition call :: "upstream \<Rightarrow> string \<Rightarrow> request \<Rightarrow> world \<Rightarrow> (js_error + jsval) \<times> world" where
  "call api label req w =
     (case send api req w of
        (Inr data, w1) \<Rightarrow> (Inr data, w1)
      | (Inl error, w1) \<Rightarrow> (Inl error, console_error label (logged error) w1))"

definition getJobs :: "upstream \<Rightarrow> job_filters \<Rightarrow> world \<Rightarrow> (js_error + jsval) \<times> world" where
  "getJobs api filters w =
     call api ''Error fetching jobs:'' (GET ''/jobs'' (getJobs_params filters)) w"

definition getJobById :: "upstream \<Rightarrow> string \<Rightarrow> world \<Rightarrow> (js_error + jsval) \<times> world" where
  "getJobById api ident w =
     call api (''Error fetching job '' @ ident @ '':'') (GET (''/jobs/'' @ ident) []) w"

record MinimalApplicationData =
  firstName :: string
  lastName :: string
  email :: string
  jobId :: string

definition applicationData :: "MinimalApplicationData \<Rightarrow> jsval" where
  "applicationData application =
     JObj [(''data'', JObj
       [(''type'', JStr ''applications''),
        (''attributes'', JObj
          [(''first_name'', JStr (firstName application)),
           (''last_name'', JStr (lastName application)),
           (''email'', JStr (email application))]),
        (''relationships'', JObj
          [(''job'', JObj
            [(''data'', JObj
              [(''type'', JStr ''jobs''),
               (''id'', JStr (jobId application))])])])])]"

definition createApplication ::
    "upstream \<Rightarrow> MinimalApplicationData \<Rightarrow> world \<Rightarrow> (js_error + jsval) \<times> world" where
  "createApplication api application w =
     call api ''Error creating application:''
       (POST ''/applications'' (applicationData application)) w"

definition getApplications ::
    "upstream \<Rightarrow> application_filters \<Rightarrow> world \<Rightarrow> (js_error + jsval) \<times> world" where
  "getApplications api filters w =
     call api ''Error fetching applications:''
       (GET ''/applications'' (getApplications_params filters)) w"

definition getApplicationById :: "upstream \<Rightarrow> string \<Rightarrow> world \<Rightarrow> (js_error + jsval) \<times> world" where
  "getApplicationById api ident w =
     call api (''Error fetching application '' @ ident @ '':'')
       (GET (''/applications/'' @ ident) []) w"

section \<open>The PDF text extractor\<close>

text \<open>
  One item the parser hands to the callback; of its fields only \<open>text\<close> is read. One
  invocation of the callback is the pair \<open>(err, item)\<close>, each possibly missing. What the
  parser library does with a buffer is the sequence of invocations it makes.
\<close>

record pdf_item =
  item_text :: "string option"

type_synonym invocation = "string option \<times> pdf_item option"

type_synonym buffer = "nat list"

text \<open>
  The promise and the array the callback closes over: \<open>textItems\<close>, and the value the
  promise was resolved with, if it was. \<open>resolve\<close> on a settled promise changes nothing.
\<close>

definition resolve :: "string \<Rightarrow> string option \<Rightarrow> string option" where
  "resolve v settled = (case settled of None \<Rightarrow> Some v | Some u \<Rightarrow> Some u)"

fun on_item :: "pdf_item option \<Rightarrow> string list \<times> string option \<times> world
    \<Rightarrow> string list \<times> string option \<times> world" where
  "on_item None (textItems, settled, w) =
     (textItems, resolve (join '' '' textItems) settled, w)"
| "on_item (Some item) (textItems, settled, w) =
     (case item_text item of
        None \<Rightarrow> (textItems, settled, w)
      | Some t \<Rightarrow> if t \<noteq> [] then (textItems @ [t], settled, w) else (textItems, settled, w))"

fun callback :: "invocation \<Rightarrow> string list \<times> string option \<times> world
    \<Rightarrow> string list \<times> string option \<times> world" where
  "callback (None, item) st = on_item item st"
| "callback (Some err, item) (textItems, settled, w) =
     (if err \<noteq> []
      then (textItems, resolve ''Error extracting text from PDF'' settled,
            console_error ''PDF parsing error:'' (JStr err) w)
      else on_item item (textItems, settled, w))"

text \<open>
  The promise \<open>extractTextFromPdf\<close> returns: \<open>None\<close> when no invocation ever resolves
  it, so that it stays pending.
\<close>

definition extractTextFromPdf ::
    "(buffer \<Rightarrow> invocation list) \<Rightarrow> buffer \<Rightarrow> world \<Rightarrow> string option \<times> world" where
  "extractTextFromPdf parseBuffer buf w =
     (case fold callback (parseBuffer buf) ([], None, w) of
        (textItems, settled, w1) \<Rightarrow> (settled, w1))"

definition parsePdfFromUrl ::
    "(string \<Rightarrow> js_error + buffer) \<Rightarrow> (buffer \<Rightarrow> invocation list) \<Rightarrow> string \<Rightarrow> world
      \<Rightarrow> (js_error + string) option \<times> world" where
  "parsePdfFromUrl download parseBuffer url w =
     (let w1 = w\<lparr>requests := requests w @ [GET url []]\<rparr> in
      case download url of
        Inl error \<Rightarrow>
          (Some (Inl \<lparr>message = ''Failed to process PDF from URL: '' @ message error,
                      response_data = None\<rparr>),
           console_error ''Error processing PDF:'' (JStr (message error)) w1)
      | Inr pdfBuffer \<Rightarrow>
          (case extractTextFromPdf parseBuffer pdfBuffer w1 of
             (None, w2) \<Rightarrow> (None, w2)
           | (Some t, w2) \<Rightarrow> (Some (Inr t), w2)))"

section \<open>The tools\<close>

text \<open>
  The envelope every handler returns: \<open>{ content: [{ type: 'text', text }] }\<close>.
\<close>

datatype content_item = Text string

record tool_result =
  content :: "content_item list"

definition text_content :: "string \<Rightarrow> tool_result" where
  "text_content s = \<lparr>content = [Text s]\<rparr>"

text \<open>\<open>error.message || 'Unknown error'\<close>\<close>

definition message_or_unknown :: "js_error \<Rightarrow> string" where
  "message_or_unknown error = (if message error \<noteq> [] then message error else ''Unknown error'')"

text \<open>Sequencing of steps that may throw.\<close>

fun and_then :: "js_error + 'a \<Rightarrow> ('a \<Rightarrow> js_error + 'b) \<Rightarrow> js_error + 'b" where
  "and_then (Inl e) f = Inl e"
| "and_then (Inr x) f = f x"

subsection \<open>get-jobs\<close>

text \<open>
  The argument schema: three enumerations, and \<open>page\<close> and \<open>per_page\<close> declared
  \<open>z.number().positive().optional().default(1)\<close> and \<open>.default(20)\<close>. Arguments that
  fail it never reach the handler (\<open>None\<close>); a missing \<open>page\<close> or \<open>per_page\<close> is
  replaced by its default.
\<close>

fun one_of :: "string list \<Rightarrow> string option \<Rightarrow> bool" where
  "one_of allowed None = True"
| "one_of allowed (Some s) = (s \<in> set allowed)"

fun positive :: "int option \<Rightarrow> bool" where
  "positive None = True"
| "positive (Some n) = (0 < n)"

fun default_to :: "int \<Rightarrow> int option \<Rightarrow> int option" where
  "default_to d None = Some d"
| "default_to d (Some n) = Some n"

definition get_jobs_schema :: "job_filters \<Rightarrow> job_filters option" where
  "get_jobs_schema args =
     (if one_of [''open'', ''closed'', ''filled'', ''on_hold'', ''draft''] (status args)
        \<and> one_of [''full_time'', ''part_time'', ''contract'', ''temporary'', ''internship'']
             (employment_type args)
        \<and> one_of [''onsite'', ''remote'', ''hybrid''] (workplace_type args)
        \<and> positive (page args) \<and> positive (per_page args)
      then Some (args\<lparr>page := default_to 1 (page args), per_page := default_to 20 (per_page args)\<rparr>)
      else None)"

text \<open>
  The handler. \<open>stringify\<close> stands for the runtime's \<open>JSON.stringify(v, null, 2)\<close>.
  There is no \<open>try\<close> around the call of the adapter: an error it throws rejects the
  handler's promise (\<open>Inl\<close>).
\<close>

definition get_jobs_handler ::
    "(jsval \<Rightarrow> string) \<Rightarrow> upstream \<Rightarrow> job_filters \<Rightarrow> world \<Rightarrow> (js_error + tool_result) \<times> world" where
  "get_jobs_handler stringify api args w =
     (case getJobs api
             \<lparr>page = page args, per_page = per_page args, search = search args,
              status = status args, employment_type = employment_type args,
              workplace_type = workplace_type args\<rparr> w of
        (Inl error, w1) \<Rightarrow> (Inl error, w1)
      | (Inr jobs, w1) \<Rightarrow> (Inr (text_content (stringify jobs)), w1))"

text \<open>The tool as a caller invokes it: \<open>None\<close> when the schema refuses the arguments.\<close>

definition get_jobs_tool ::
    "(jsval \<Rightarrow> string) \<Rightarrow> upstream \<Rightarrow> job_filters \<Rightarrow> world
      \<Rightarrow> (js_error + tool_result) option \<times> world" where
  "get_jobs_tool stringify api raw w =
     (case get_jobs_schema raw of
        None \<Rightarrow> (None, w)
      | Some args \<Rightarrow>
          (case get_jobs_handler stringify api args w of (r, w1) \<Rightarrow> (Some r, w1)))"

subsection \<open>get-job\<close>

definition get_job_handler ::
    "(jsval \<Rightarrow> string) \<Rightarrow> upstream \<Rightarrow> string \<Rightarrow> world \<Rightarrow> (js_error + tool_result) \<times> world" where
  "get_job_handler stringify api ident w =
     (case getJobById api ident w of
        (Inl error, w1) \<Rightarrow> (Inl error, w1)
      | (Inr job, w1) \<Rightarrow> (Inr (text_content (stringify job)), w1))"

subsection \<open>create-application\<close>

text \<open>The text of the success message; reading the identifier or the title may throw.\<close>

definition submitted_text :: "jsval \<Rightarrow> jsval \<Rightarrow> MinimalApplicationData \<Rightarrow> js_error + string" where
  "submitted_text applicationResponse jobResponse a =
     and_then (get_prop applicationResponse ''data'') (\<lambda>d.
     and_then (get_prop d ''id'') (\<lambda>application_id.
     and_then (get_prop jobResponse ''data'') (\<lambda>jd.
     and_then (get_prop jd ''attributes'') (\<lambda>attrs.
     and_then (get_prop attrs ''title'') (\<lambda>title.
       Inr (''Application submitted successfully! Application ID: '' @ to_display application_id
            @ [CHR 0x0A, CHR 0x0A] @ ''Job: '' @ to_display title
            @ [CHR 0x0A] @ ''Applicant: '' @ firstName a @ '' '' @ lastName a
            @ [CHR 0x0A] @ ''Email: '' @ email a))))))"

definition create_application_caught :: "js_error \<Rightarrow> tool_result" where
  "create_application_caught error =
     text_content (''Error creating application: '' @ message_or_unknown error)"

definition create_application_handler ::
    "upstream \<Rightarrow> MinimalApplicationData \<Rightarrow> world \<Rightarrow> (js_error + tool_result) \<times> world" where
  "create_application_handler api a w =
     (case getJobById api (jobId a) w of
        (Inl error, w1) \<Rightarrow> (Inr (create_application_caught error), w1)
      | (Inr jobResponse, w1) \<Rightarrow>
          if \<not> truthy jobResponse
          then (Inr (text_content (''Error: Job with ID '' @ jobId a @ '' not found.'')), w1)
          else
            (case createApplication api a w1 of
               (Inl error, w2) \<Rightarrow> (Inr (create_application_caught error), w2)
             | (Inr applicationResponse, w2) \<Rightarrow>
                 (case submitted_text applicationResponse jobResponse a of
                    Inl error \<Rightarrow> (Inr (create_application_caught error), w2)
                  | Inr t \<Rightarrow> (Inr (text_content t), w2))))"

subsection \<open>get-applications\<close>

definition found_text :: "(jsval \<Rightarrow> string) \<Rightarrow> jsval \<Rightarrow> js_error + string" where
  "found_text stringify response =
     and_then (get_prop response ''meta'') (\<lambda>meta.
     and_then (get_prop response ''data'') (\<lambda>d.
       Inr (''Found '' @ to_display (get_opt (get_opt (get_opt meta ''stats'') ''total'') ''count'')
            @ '' applications:'' @ [CHR 0x0A, CHR 0x0A] @ stringify d)))"

definition get_applications_handler ::
    "(jsval \<Rightarrow> string) \<Rightarrow> upstream \<Rightarrow> string option \<Rightarrow> string option \<Rightarrow> string option
      \<Rightarrow> int option \<Rightarrow> int option \<Rightarrow> world \<Rightarrow> (js_error + tool_result) \<times> world" where
  "get_applications_handler stringify api jobId' jobVisibility stageId page' perPage w =
     (case getApplications api
             \<lparr>page = page', per_page = perPage, job_id = jobId',
              job_visibility = jobVisibility, stage_id = stageId\<rparr> w of
        (Inl error, w1) \<Rightarrow>
          (Inr (text_content (''Error fetching applications: '' @ message_or_unknown error)), w1)
      | (Inr response, w1) \<Rightarrow>
          (case found_text stringify response of
             Inl error \<Rightarrow>
               (Inr (text_content (''Error fetching applications: '' @ message_or_unknown error)), w1)
           | Inr t \<Rightarrow> (Inr (text_content t), w1)))"

subsection \<open>get-application-by-id\<close>

definition get_application_by_id_handler ::
    "(jsval \<Rightarrow> string) \<Rightarrow> upstream \<Rightarrow> string \<Rightarrow> world \<Rightarrow> (js_error + tool_result) \<times> world" where
  "get_application_by_id_handler stringify api ident w =
     (case getApplicationById api ident w of
        (Inl error, w1) \<Rightarrow>
          (Inr (text_content (''Error fetching application: '' @ message_or_unknown error)), w1)
      | (Inr response, w1) \<Rightarrow>
          (case get_prop response ''data'' of
             Inl error \<Rightarrow>
               (Inr (text_content (''Error fetching application: '' @ message_or_unknown error)), w1)
           | Inr d \<Rightarrow> (Inr (text_content (stringify d)), w1)))"

subsection \<open>parse-cv-from-url\<close>

definition parse_cv_from_url_handler ::
    "(string \<Rightarrow> js_error + buffer) \<Rightarrow> (buffer \<Rightarrow> invocation list) \<Rightarrow> string \<Rightarrow> world
      \<Rightarrow> (js_error + tool_result) option \<times> world" where
  "parse_cv_from_url_handler download parseBuffer url w =
     (case parsePdfFromUrl download parseBuffer url w of
        (None, w1) \<Rightarrow> (None, w1)
      | (Some (Inr pdfData), w1) \<Rightarrow> (Some (Inr (text_content pdfData)), w1)
      | (Some (Inl error), w1) \<Rightarrow>
          (Some (Inr (text_content (''Error parsing CV from URL: '' @ message_or_unknown error))), w1))"

section \<open>Vocabulary of the statements\<close>

text \<open>
  What an optional field contributes to the query: nothing when it is absent or falsy,
  else its value (a number by \<open>toString\<close>).
\<close>

fun sent_str :: "string option \<Rightarrow> string option" where
  "sent_str None = None"
| "sent_str (Some s) = (if s = [] then None else Some s)"

fun sent_num :: "int option \<Rightarrow> string option" where
  "sent_num None = None"
| "sent_num (Some n) = (if n = 0 then None else Some (toString n))"

text \<open>
  The specification's wording for \<open>getJobs\<close>: the keys of the fields that are present,
  whatever their value.
\<close>

definition spec_present_job_keys :: "job_filters \<Rightarrow> string set" where
  "spec_present_job_keys f =
     (if search f = None then {} else {''filter[search]''})
     \<union> (if status f = None then {} else {''filter[status]''})
     \<union> (if employment_type f = None then {} else {''filter[employment_type]''})
     \<union> (if workplace_type f = None then {} else {''filter[workplace_type]''})
     \<union> (if page f = None then {} else {''page[number]''})
     \<union> (if per_page f = None then {} else {''page[size]''})"

text \<open>
  The parser reports an error before it signals the end of the stream: an invocation with
  a truthy \<open>err\<close> comes before any invocation with neither \<open>err\<close> nor an item.
\<close>

fun reports_error :: "invocation list \<Rightarrow> bool" where
  "reports_error [] = False"
| "reports_error ((Some err, item) # rest) =
     (if err \<noteq> [] then True
      else case item of None \<Rightarrow> False | Some it \<Rightarrow> reports_error rest)"
| "reports_error ((None, None) # rest) = False"
| "reports_error ((None, Some it) # rest) = reports_error rest"

text \<open>The non-empty texts of a sequence of items, in order.\<close>

fun fragments :: "pdf_item list \<Rightarrow> string list" where
  "fragments [] = []"
| "fragments (item # items) =
     (case item_text item of
        None \<Rightarrow> fragments items
      | Some t \<Rightarrow> if t = [] then fragments items else t # fragments items)"

text \<open>
  The specification's wording for the extractor: an accumulator to which each fragment
  and one space are appended.
\<close>

definition spec_accumulated :: "string list \<Rightarrow> string" where
  "spec_accumulated ts = foldl (\<lambda>acc t. acc @ t @ '' '') [] ts"

section \<open>Facts about the parameter object\<close>

lemma map_of_put: "map_of (put k v ps) = (map_of ps)(k \<mapsto> v)"
  by (induction ps) (auto simp: fun_eq_iff)

lemma keys_put: "fst ` set (put k v ps) = insert k (fst ` set ps)"
proof -
  have "dom (map_of (put k v ps)) = insert k (dom (map_of ps))"
    by (simp add: map_of_put)
  then show ?thesis
    by (simp add: dom_map_of_conv_image_fst)
qed

lemma distinct_put: "distinct (map fst ps) \<Longrightarrow> distinct (map fst (put k v ps))"
proof (induction ps)
  case Nil
  then show ?case by simp
next
  case (Cons p ps)
  obtain k' v' where p: "p = (k', v')" by (cases p)
  show ?case
  proof (cases "k' = k")
    case True
    with Cons.prems p show ?thesis by simp
  next
    case False
    with Cons p keys_put [of k v ps] show ?thesis by auto
  qed
qed

lemma map_of_put_str:
  "map_of (put_str k x ps) =
     (case x of None \<Rightarrow> map_of ps
      | Some s \<Rightarrow> if s = [] then map_of ps else (map_of ps)(k \<mapsto> s))"
  by (cases x) (simp_all add: map_of_put)

lemma map_of_put_num:
  "map_of (put_num k x ps) =
     (case x of None \<Rightarrow> map_of ps
      | Some n \<Rightarrow> if n = 0 then map_of ps else (map_of ps)(k \<mapsto> toString n))"
  by (cases x) (simp_all add: map_of_put)

lemma keys_put_str: "fst ` set (put_str k x ps) \<subseteq> insert k (fst ` set ps)"
  using keys_put [of k _ ps] by (cases x) (simp_all add: subset_insertI)

lemma keys_put_num: "fst ` set (put_num k x ps) \<subseteq> insert k (fst ` set ps)"
  using keys_put [of k _ ps] by (cases x) (simp_all add: subset_insertI)

lemma distinct_put_str: "distinct (map fst ps) \<Longrightarrow> distinct (map fst (put_str k x ps))"
  by (cases x) (simp_all add: distinct_put)

lemma distinct_put_num: "distinct (map fst ps) \<Longrightarrow> distinct (map fst (put_num k x ps))"
  by (cases x) (simp_all add: distinct_put)

lemma lookup_put_str:
  "map_of (put_str k x ps) k' =
     (if k' = k \<and> sent_str x \<noteq> None then sent_str x else map_of ps k')"
  by (cases x) (simp_all add: map_of_put)

lemma lookup_put_num:
  "map_of (put_num k x ps) k' =
     (if k' = k \<and> sent_num x \<noteq> None then sent_num x else map_of ps k')"
  by (cases x) (simp_all add: map_of_put)

lemma toString_1: "toString 1 = ''1''"
  by (simp add: toString_def digits.simps)

lemma toString_20: "toString 20 = ''20''"
  by (simp add: toString_def digits.simps)

lemma requests_call: "requests (snd (call api label req w)) = requests w @ [req]"
  by (simp add: call_def send_def console_error_def split: sum.splits)

lemma fst_call: "fst (call api label req w) = api (requests w) req"
  by (simp add: call_def send_def split: sum.splits)

section \<open>Listing applications\<close>

text \<open>
  C7. Whatever the filter object holds, the request \<open>getApplications\<close> issues is a GET of
  \<open>/applications\<close> whose query parameters hold \<open>extra_fields[applications] = attachments\<close>
  and \<open>stats[total] = count\<close>.
\<close>

theorem getApplications_fixed_parameters:
  "requests (snd (getApplications api filters w))
     = requests w @ [GET ''/applications'' (getApplications_params filters)]
   \<and> map_of (getApplications_params filters) ''extra_fields[applications]'' = Some ''attachments''
   \<and> map_of (getApplications_params filters) ''stats[total]'' = Some ''count''"
  by (simp add: getApplications_def requests_call getApplications_params_def Let_def map_of_put)

lemma getApplications_params_lookup:
  "map_of (getApplications_params f) k =
     (if k = ''stats[total]'' then Some ''count''
      else if k = ''extra_fields[applications]'' then Some ''attachments''
      else if k = ''per_page'' \<and> sent_num (per_page f) \<noteq> None then sent_num (per_page f)
      else if k = ''page'' \<and> sent_num (page f) \<noteq> None then sent_num (page f)
      else if k = ''filter[stage_id]'' \<and> sent_str (stage_id f) \<noteq> None then sent_str (stage_id f)
      else if k = ''filter[job_visibility]'' \<and> sent_str (job_visibility f) \<noteq> None
        then sent_str (job_visibility f)
      else if k = ''filter[job_id]'' \<and> sent_str (job_id f) \<noteq> None then sent_str (job_id f)
      else None)"
  unfolding getApplications_params_def Let_def map_of_put lookup_put_str lookup_put_num by simp

text \<open>
  C3. The filter fields of \<open>getApplications\<close> go out under \<open>filter[job_id]\<close>,
  \<open>filter[job_visibility]\<close> and \<open>filter[stage_id]\<close>, but the pagination fields go out
  under the plain keys \<open>page\<close> and \<open>per_page\<close>, not under \<open>page[number]\<close> and
  \<open>page[size]\<close> as in \<open>getJobs\<close>: here the whole parameter object for page 2 of
  size 50 of the applications to job 7.
\<close>

theorem getApplications_pagination_keys:
  "getApplications_params
      \<lparr>page = Some 2, per_page = Some 50, job_id = Some ''7'', job_visibility = None,
       stage_id = None\<rparr>
   = [(''filter[job_id]'', ''7''), (''page'', ''2''), (''per_page'', ''50''),
      (''extra_fields[applications]'', ''attachments''), (''stats[total]'', ''count'')]"
  by (simp add: getApplications_params_def toString_def digits.simps)

section \<open>Listing jobs\<close>

lemma getJobs_params_lookup:
  "map_of (getJobs_params f) k =
     (if k = ''page[size]'' \<and> sent_num (per_page f) \<noteq> None then sent_num (per_page f)
      else if k = ''page[number]'' \<and> sent_num (page f) \<noteq> None then sent_num (page f)
      else if k = ''filter[workplace_type]'' \<and> sent_str (workplace_type f) \<noteq> None
        then sent_str (workplace_type f)
      else if k = ''filter[employment_type]'' \<and> sent_str (employment_type f) \<noteq> None
        then sent_str (employment_type f)
      else if k = ''filter[status]'' \<and> sent_str (status f) \<noteq> None then sent_str (status f)
      else if k = ''filter[search]'' \<and> sent_str (search f) \<noteq> None then sent_str (search f)
      else None)"
  unfolding getJobs_params_def Let_def lookup_put_str lookup_put_num by simp

lemma getJobs_params_keys:
  "fst ` set (getJobs_params f)
     \<subseteq> {''filter[search]'', ''filter[status]'', ''filter[employment_type]'',
         ''filter[workplace_type]'', ''page[number]'', ''page[size]''}"
proof
  fix k assume "k \<in> fst ` set (getJobs_params f)"
  then have "map_of (getJobs_params f) k \<noteq> None"
    by (simp add: map_of_eq_None_iff)
  then show "k \<in> {''filter[search]'', ''filter[status]'', ''filter[employment_type]'',
         ''filter[workplace_type]'', ''page[number]'', ''page[size]''}"
    unfolding getJobs_params_lookup by (simp split: if_splits)
qed

lemma getJobs_params_distinct: "distinct (map fst (getJobs_params f))"
  by (simp add: getJobs_params_def Let_def distinct_put_str distinct_put_num)

text \<open>
  C4, as the claim states it, fails: a search field that is present and holds the empty
  string gives no \<open>filter[search]\<close> key, so the keys sent are not the keys of the
  present fields.
\<close>

theorem getJobs_empty_search_counterexample:
  "fst ` set (getJobs_params
      \<lparr>page = None, per_page = None, search = Some [], status = Some ''open'',
       employment_type = None, workplace_type = None\<rparr>)
   \<noteq> spec_present_job_keys
      \<lparr>page = None, per_page = None, search = Some [], status = Some ''open'',
       employment_type = None, workplace_type = None\<rparr>"
  by (simp add: getJobs_params_def spec_present_job_keys_def)

text \<open>
  C4, amended. The request \<open>getJobs\<close> issues is a GET of \<open>/jobs\<close> whose parameter object
  holds, under each of the six bracket-syntax keys, the value of its field when the field
  is present and truthy (a non-empty string, a number other than 0) and nothing
  otherwise; it has no other key and no key twice. An absent field has no key.
\<close>

theorem getJobs_params_present_truthy:
  "map_of (getJobs_params f) ''filter[search]'' = sent_str (search f)
   \<and> map_of (getJobs_params f) ''filter[status]'' = sent_str (status f)
   \<and> map_of (getJobs_params f) ''filter[employment_type]'' = sent_str (employment_type f)
   \<and> map_of (getJobs_params f) ''filter[workplace_type]'' = sent_str (workplace_type f)
   \<and> map_of (getJobs_params f) ''page[number]'' = sent_num (page f)
   \<and> map_of (getJobs_params f) ''page[size]'' = sent_num (per_page f)
   \<and> fst ` set (getJobs_params f)
        \<subseteq> {''filter[search]'', ''filter[status]'', ''filter[employment_type]'',
            ''filter[workplace_type]'', ''page[number]'', ''page[size]''}
   \<and> distinct (map fst (getJobs_params f))
   \<and> requests (snd (getJobs api f w)) = requests w @ [GET ''/jobs'' (getJobs_params f)]"
  using getJobs_params_keys [of f] getJobs_params_distinct [of f]
  unfolding getJobs_params_lookup by (simp add: getJobs_def requests_call)

section \<open>Falsy fields\<close>

text \<open>
  C10. In \<open>getJobs\<close> and in \<open>getApplications\<close>, a string field holding the empty string
  and a \<open>page\<close> or \<open>per_page\<close> holding 0 give the parameter object of the same filter
  with that field absent, and no parameter under the field's key.
\<close>

theorem falsy_fields_as_absent:
  "getJobs_params (f\<lparr>search := Some []\<rparr>) = getJobs_params (f\<lparr>search := None\<rparr>)
   \<and> getJobs_params (f\<lparr>status := Some []\<rparr>) = getJobs_params (f\<lparr>status := None\<rparr>)
   \<and> getJobs_params (f\<lparr>employment_type := Some []\<rparr>) = getJobs_params (f\<lparr>employment_type := None\<rparr>)
   \<and> getJobs_params (f\<lparr>workplace_type := Some []\<rparr>) = getJobs_params (f\<lparr>workplace_type := None\<rparr>)
   \<and> getJobs_params (f\<lparr>page := Some 0\<rparr>) = getJobs_params (f\<lparr>page := None\<rparr>)
   \<and> getJobs_params (f\<lparr>per_page := Some 0\<rparr>) = getJobs_params (f\<lparr>per_page := None\<rparr>)
   \<and> map_of (getJobs_params (f\<lparr>search := Some []\<rparr>)) ''filter[search]'' = None
   \<and> map_of (getJobs_params (f\<lparr>status := Some []\<rparr>)) ''filter[status]'' = None
   \<and> map_of (getJobs_params (f\<lparr>employment_type := Some []\<rparr>)) ''filter[employment_type]'' = None
   \<and> map_of (getJobs_params (f\<lparr>workplace_type := Some []\<rparr>)) ''filter[workplace_type]'' = None
   \<and> map_of (getJobs_params (f\<lparr>page := Some 0\<rparr>)) ''page[number]'' = None
   \<and> map_of (getJobs_params (f\<lparr>per_page := Some 0\<rparr>)) ''page[size]'' = None
   \<and> getApplications_params (g\<lparr>job_id := Some []\<rparr>) = getApplications_params (g\<lparr>job_id := None\<rparr>)
   \<and> getApplications_params (g\<lparr>job_visibility := Some []\<rparr>)
       = getApplications_params (g\<lparr>job_visibility := None\<rparr>)
   \<and> getApplications_params (g\<lparr>stage_id := Some []\<rparr>) = getApplications_params (g\<lparr>stage_id := None\<rparr>)
   \<and> getApplications_params (g\<lparr>page := Some 0\<rparr>) = getApplications_params (g\<lparr>page := None\<rparr>)
   \<and> getApplications_params (g\<lparr>per_page := Some 0\<rparr>) = getApplications_params (g\<lparr>per_page := None\<rparr>)
   \<and> map_of (getApplications_params (g\<lparr>job_id := Some []\<rparr>)) ''filter[job_id]'' = None
   \<and> map_of (getApplications_params (g\<lparr>job_visibility := Some []\<rparr>)) ''filter[job_visibility]'' = None
   \<and> map_of (getApplications_params (g\<lparr>stage_id := Some []\<rparr>)) ''filter[stage_id]'' = None
   \<and> map_of (getApplications_params (g\<lparr>page := Some 0\<rparr>)) ''page'' = None
   \<and> map_of (getApplications_params (g\<lparr>per_page := Some 0\<rparr>)) ''per_page'' = None"
  unfolding getJobs_params_lookup getApplications_params_lookup
  by (simp add: getJobs_params_def getApplications_params_def)

section \<open>The PDF text extractor: failures and the joined text\<close>

lemma str_includes_iff: "str_includes s sub \<longleftrightarrow> (\<exists>p q. s = p @ sub @ q)"
proof (induction s)
  case Nil
  then show ?case by auto
next
  case (Cons c cs)
  have "(take (length sub) (c # cs) = sub) \<longleftrightarrow> (\<exists>q. c # cs = sub @ q)"
    by (metis append_eq_conv_conj append_take_drop_id)
  moreover have "(\<exists>p q. c # cs = p @ sub @ q) \<longleftrightarrow> (\<exists>q. c # cs = sub @ q) \<or> (\<exists>p q. cs = p @ sub @ q)"
  proof
    assume "\<exists>p q. c # cs = p @ sub @ q"
    then obtain p q where pq: "c # cs = p @ sub @ q" by blast
    show "(\<exists>q. c # cs = sub @ q) \<or> (\<exists>p q. cs = p @ sub @ q)"
    proof (cases p)
      case Nil
      with pq show ?thesis by auto
    next
      case (Cons a p')
      with pq have "cs = p' @ sub @ q" by simp
      then show ?thesis by blast
    qed
  next
    assume "(\<exists>q. c # cs = sub @ q) \<or> (\<exists>p q. cs = p @ sub @ q)"
    then show "\<exists>p q. c # cs = p @ sub @ q"
    proof
      assume "\<exists>q. c # cs = sub @ q"
      then show ?thesis by (metis append_Nil)
    next
      assume "\<exists>p q. cs = p @ sub @ q"
      then obtain p q where "cs = p @ sub @ q" by blast
      then have "c # cs = (c # p) @ sub @ q" by simp
      then show ?thesis by blast
    qed
  qed
  ultimately show ?case using Cons.IH by simp
qed

lemma str_includes_suffix: "str_includes (p @ s) s"
  unfolding str_includes_iff by (metis append_Nil2)

lemma str_includes_middle: "str_includes (p @ s @ q) s"
  unfolding str_includes_iff by blast

lemma on_item_keeps: "fst (snd st) = Some v \<Longrightarrow> fst (snd (on_item item st)) = Some v"
  by (cases st; cases item) (auto simp: resolve_def split: option.splits)

lemma callback_keeps: "fst (snd st) = Some v \<Longrightarrow> fst (snd (callback i st)) = Some v"
proof -
  assume st: "fst (snd st) = Some v"
  obtain err item where i: "i = (err, item)" by (cases i)
  obtain ti s w where t: "st = (ti, s, w)" by (cases st)
  show ?thesis
  proof (cases err)
    case None
    with i st show ?thesis by (simp add: on_item_keeps)
  next
    case (Some e)
    with i t st on_item_keeps [of st v item] show ?thesis by (simp add: resolve_def)
  qed
qed

lemma fold_keeps: "fst (snd st) = Some v \<Longrightarrow> fst (snd (fold callback invs st)) = Some v"
  by (induction invs arbitrary: st) (simp_all add: callback_keeps)

lemma on_item_pending: "fst (snd st) = None \<Longrightarrow> fst (snd (on_item (Some item) st)) = None"
  by (cases st) (auto split: option.splits)

lemma error_first_settles:
  "reports_error invs \<Longrightarrow> fst (snd st) = None
     \<Longrightarrow> fst (snd (fold callback invs st)) = Some ''Error extracting text from PDF''"
proof (induction invs arbitrary: st rule: reports_error.induct)
  case 1
  then show ?case by simp
next
  case (2 err item rest)
  obtain ti s w where t: "st = (ti, s, w)" by (cases st)
  show ?case
  proof (cases "err = []")
    case True
    with "2.prems" obtain it where it: "item = Some it" and re: "reports_error rest"
      by (cases item) auto
    have "fst (snd (callback (Some err, item) st)) = None"
      using True it t "2.prems"(2) on_item_pending [of st it] by simp
    moreover from True have "\<not> err \<noteq> []" by simp
    ultimately show ?thesis using "2.IH" [OF _ it re] by simp
  next
    case False
    with t "2.prems"(2)
    have "fst (snd (callback (Some err, item) st)) = Some ''Error extracting text from PDF''"
      by (simp add: resolve_def)
    then show ?thesis by (simp add: fold_keeps)
  qed
next
  case (3 rest)
  then show ?case by simp
next
  case (4 it rest)
  have "fst (snd (callback (None, Some it) st)) = None"
    using "4.prems"(2) by (simp add: on_item_pending)
  with 4 show ?case by simp
qed

lemma fold_items:
  "fold callback (map (\<lambda>item. (None, Some item)) items) (ti, s, w) = (ti @ fragments items, s, w)"
  by (induction items arbitrary: ti) (auto split: option.splits)


lemma fst_extractTextFromPdf:
  "fst (extractTextFromPdf parseBuffer buf w)
     = fst (snd (fold callback (parseBuffer buf) ([], None, w)))"
  by (simp add: extractTextFromPdf_def split: prod.splits)

lemma extract_sentinel:
  "reports_error (parseBuffer buf)
     \<Longrightarrow> fst (extractTextFromPdf parseBuffer buf w) = Some ''Error extracting text from PDF''"
  using error_first_settles [of "parseBuffer buf" "([], None, w)"]
  by (simp add: fst_extractTextFromPdf)

text \<open>
  C6. When the download fails, \<open>parsePdfFromUrl\<close> rejects with an error whose message is
  \<open>Failed to process PDF from URL: \<close> followed by the message of the failure, which it
  therefore contains. When the download succeeds and the parser reports an error, it
  resolves with the string \<open>Error extracting text from PDF\<close>.
\<close>

theorem parsePdfFromUrl_failures:
  "(download url = Inl e \<longrightarrow>
      fst (parsePdfFromUrl download parseBuffer url w)
        = Some (Inl \<lparr>message = ''Failed to process PDF from URL: '' @ message e,
                     response_data = None\<rparr>)
      \<and> str_includes (''Failed to process PDF from URL: '' @ message e) (message e))
   \<and> (download url = Inr buf \<and> reports_error (parseBuffer buf) \<longrightarrow>
        fst (parsePdfFromUrl download parseBuffer url w)
          = Some (Inr ''Error extracting text from PDF''))"
proof (intro conjI impI)
  assume "download url = Inl e"
  then show "fst (parsePdfFromUrl download parseBuffer url w)
        = Some (Inl \<lparr>message = ''Failed to process PDF from URL: '' @ message e,
                     response_data = None\<rparr>)"
    by (simp add: parsePdfFromUrl_def Let_def)
next
  show "str_includes (''Failed to process PDF from URL: '' @ message e) (message e)"
    by (rule str_includes_suffix)
next
  assume a: "download url = Inr buf \<and> reports_error (parseBuffer buf)"
  let ?w1 = "w\<lparr>requests := requests w @ [GET url []]\<rparr>"
  from a have "fst (extractTextFromPdf parseBuffer buf ?w1) = Some ''Error extracting text from PDF''"
    by (simp add: extract_sentinel)
  with a show "fst (parsePdfFromUrl download parseBuffer url w)
          = Some (Inr ''Error extracting text from PDF'')"
    by (auto simp: parsePdfFromUrl_def Let_def split: prod.splits option.splits)
qed

theorem parsePdfFromUrl_failures_witness:
  "fst (parsePdfFromUrl
         (\<lambda>u. Inl \<lparr>message = ''Request failed with status code 404'', response_data = None\<rparr>)
         (\<lambda>b. []) ''https://example.com/cv.pdf'' \<lparr>requests = [], console = []\<rparr>)
     = Some (Inl \<lparr>message = ''Failed to process PDF from URL: Request failed with status code 404'',
                  response_data = None\<rparr>)
   \<and> str_includes ''Failed to process PDF from URL: Request failed with status code 404''
        ''Request failed with status code 404''
   \<and> reports_error [(None, Some \<lparr>item_text = Some ''Curriculum''\<rparr>), (Some ''Invalid PDF structure'', None)]
   \<and> fst (parsePdfFromUrl (\<lambda>u. Inr [37, 80, 68, 70])
         (\<lambda>b. [(None, Some \<lparr>item_text = Some ''Curriculum''\<rparr>), (Some ''Invalid PDF structure'', None)])
         ''https://example.com/cv.pdf'' \<lparr>requests = [], console = []\<rparr>)
     = Some (Inr ''Error extracting text from PDF'')"
  using parsePdfFromUrl_failures
    [of "\<lambda>u. Inl \<lparr>message = ''Request failed with status code 404'', response_data = None\<rparr>"
        "''https://example.com/cv.pdf''"
        "\<lparr>message = ''Request failed with status code 404'', response_data = None\<rparr>"
        "\<lambda>b. []" "\<lparr>requests = [], console = []\<rparr>" "[]"]
    parsePdfFromUrl_failures
    [of "\<lambda>u. Inr [37, 80, 68, 70]" "''https://example.com/cv.pdf''" _
        "\<lambda>b. [(None, Some \<lparr>item_text = Some ''Curriculum''\<rparr>), (Some ''Invalid PDF structure'', None)]"
        "\<lparr>requests = [], console = []\<rparr>" "[37, 80, 68, 70]"]
  by simp

text \<open>
  C8, as the claim states it, fails: the fragments are joined with one space between
  neighbours, so no space follows the last one.
\<close>

theorem extractTextFromPdf_trailing_space_counterexample:
  "fst (extractTextFromPdf
         (\<lambda>b. [(None, Some \<lparr>item_text = Some ''Hello''\<rparr>),
               (None, Some \<lparr>item_text = Some ''World''\<rparr>), (None, None)])
         [] \<lparr>requests = [], console = []\<rparr>) = Some ''Hello World''
   \<and> fst (extractTextFromPdf
         (\<lambda>b. [(None, Some \<lparr>item_text = Some ''Hello''\<rparr>),
               (None, Some \<lparr>item_text = Some ''World''\<rparr>), (None, None)])
         [] \<lparr>requests = [], console = []\<rparr>) \<noteq> Some (spec_accumulated [''Hello'', ''World''])"
  by (simp add: extractTextFromPdf_def resolve_def spec_accumulated_def)

text \<open>
  C8, amended. For every sequence of items followed by the terminal null item,
  \<open>extractTextFromPdf\<close> resolves with the non-empty text fragments in callback order,
  joined by single spaces: one space between neighbours, none after the last.
\<close>

theorem extractTextFromPdf_joins_fragments:
  "parseBuffer buf = map (\<lambda>item. (None, Some item)) items @ [(None, None)]
     \<Longrightarrow> fst (extractTextFromPdf parseBuffer buf w) = Some (join '' '' (fragments items))"
  by (simp add: extractTextFromPdf_def fold_items resolve_def)

theorem extractTextFromPdf_joins_fragments_witness:
  "fst (extractTextFromPdf
         (\<lambda>b. map (\<lambda>item. (None, Some item))
                 [\<lparr>item_text = Some ''Ada''\<rparr>, \<lparr>item_text = None\<rparr>, \<lparr>item_text = Some []\<rparr>,
                  \<lparr>item_text = Some ''Lovelace''\<rparr>] @ [(None, None)])
         [] \<lparr>requests = [], console = []\<rparr>) = Some ''Ada Lovelace''"
  using extractTextFromPdf_joins_fragments
    [of "\<lambda>b. map (\<lambda>item. (None, Some item))
                 [\<lparr>item_text = Some ''Ada''\<rparr>, \<lparr>item_text = None\<rparr>, \<lparr>item_text = Some []\<rparr>,
                  \<lparr>item_text = Some ''Lovelace''\<rparr>] @ [(None, None)]" "[]"
        "[\<lparr>item_text = Some ''Ada''\<rparr>, \<lparr>item_text = None\<rparr>, \<lparr>item_text = Some []\<rparr>,
                  \<lparr>item_text = Some ''Lovelace''\<rparr>]" "\<lparr>requests = [], console = []\<rparr>"]
  by simp

section \<open>Creating an application\<close>

text \<open>
  C5. For every input, the request \<open>createApplication\<close> issues is a POST to
  \<open>/applications\<close> whose body is the JSON:API document of type \<open>applications\<close> with the
  three attributes \<open>first_name\<close>, \<open>last_name\<close>, \<open>email\<close> and the relationship
  \<open>job\<close> to the resource of type \<open>jobs\<close> with the given id; for Ada Lovelace applying
  to job 42 it is the document of the specification.
\<close>

theorem createApplication_request_body:
  "requests (snd (createApplication api a w))
     = requests w @ [POST ''/applications''
         (JObj [(''data'', JObj
           [(''type'', JStr ''applications''),
            (''attributes'', JObj
              [(''first_name'', JStr (firstName a)),
               (''last_name'', JStr (lastName a)),
               (''email'', JStr (email a))]),
            (''relationships'', JObj
              [(''job'', JObj
                [(''data'', JObj [(''type'', JStr ''jobs''), (''id'', JStr (jobId a))])])])])])]
   \<and> requests (snd (createApplication api
         \<lparr>firstName = ''Ada'', lastName = ''Lovelace'', email = ''ada@example.com'', jobId = ''42''\<rparr> w))
     = requests w @ [POST ''/applications''
         (JObj [(''data'', JObj
           [(''type'', JStr ''applications''),
            (''attributes'', JObj
              [(''first_name'', JStr ''Ada''),
               (''last_name'', JStr ''Lovelace''),
               (''email'', JStr ''ada@example.com'')]),
            (''relationships'', JObj
              [(''job'', JObj
                [(''data'', JObj [(''type'', JStr ''jobs''), (''id'', JStr ''42'')])])])])])]"
  by (simp add: createApplication_def requests_call applicationData_def)

text \<open>
  What the pre-check of \<open>create-application\<close> does do: when the lookup of the job throws,
  or gives a falsy body, the only request issued is the lookup, so no application is
  created; and when it gives a falsy body, the text says \<open>not found\<close>.
\<close>

lemma lookup_failure_no_creation:
  "fst (getJobById api (jobId a) w) = Inl e
     \<or> (\<exists>v. fst (getJobById api (jobId a) w) = Inr v \<and> \<not> truthy v)
   \<Longrightarrow> requests (snd (create_application_handler api a w))
        = requests w @ [GET (''/jobs/'' @ jobId a) []]"
  using requests_call [of api "''Error fetching job '' @ jobId a @ '':''" "GET (''/jobs/'' @ jobId a) []" w]
  by (auto simp: create_application_handler_def getJobById_def split: prod.splits sum.splits)

lemma falsy_lookup_not_found:
  "fst (getJobById api (jobId a) w) = Inr v \<Longrightarrow> \<not> truthy v
   \<Longrightarrow> fst (create_application_handler api a w)
        = Inr (text_content (''Error: Job with ID '' @ jobId a @ '' not found.''))
      \<and> str_includes (''Error: Job with ID '' @ jobId a @ '' not found.'') ''not found''"
proof -
  assume "fst (getJobById api (jobId a) w) = Inr v" "\<not> truthy v"
  then have "fst (create_application_handler api a w)
        = Inr (text_content (''Error: Job with ID '' @ jobId a @ '' not found.''))"
    by (auto simp: create_application_handler_def split: prod.splits sum.splits)
  moreover have "str_includes ((''Error: Job with ID '' @ jobId a @ '' '') @ ''not found'' @ ''.'') ''not found''"
    by (rule str_includes_middle)
  ultimately show ?thesis by simp
qed

text \<open>
  C1. A job that does not exist is answered by the upstream with status 404, which the
  HTTP client turns into a rejection; \<open>getJobById\<close> logs and rethrows it, and the
  handler's \<open>catch\<close> answers \<open>Error creating application: Request failed with status
  code 404\<close>. The creation request is not issued, but the text does not contain
  \<open>not found\<close>: the branch that says so is reached only for a lookup that resolves with
  a falsy body.
\<close>

theorem create_application_missing_job:
  "fst (create_application_handler
          (\<lambda>h r. Inl \<lparr>message = ''Request failed with status code 404'',
                        response_data = Some (JObj [(''error'', JStr ''Record not found'')])\<rparr>)
          \<lparr>firstName = ''Ada'', lastName = ''Lovelace'', email = ''ada@example.com'', jobId = ''999''\<rparr>
          \<lparr>requests = [], console = []\<rparr>)
     = Inr (text_content ''Error creating application: Request failed with status code 404'')
   \<and> \<not> str_includes ''Error creating application: Request failed with status code 404'' ''not found''
   \<and> requests (snd (create_application_handler
          (\<lambda>h r. Inl \<lparr>message = ''Request failed with status code 404'',
                        response_data = Some (JObj [(''error'', JStr ''Record not found'')])\<rparr>)
          \<lparr>firstName = ''Ada'', lastName = ''Lovelace'', email = ''ada@example.com'', jobId = ''999''\<rparr>
          \<lparr>requests = [], console = []\<rparr>))
     = [GET ''/jobs/999'' []]"
  by (simp add: create_application_handler_def getJobById_def call_def send_def
      create_application_caught_def message_or_unknown_def console_error_def)

section \<open>Handlers and the errors of the adapter\<close>

lemma snd_case_outcome:
  "snd (case p of (Inl e, w1) \<Rightarrow> (f e, w1) | (Inr v, w1) \<Rightarrow> (g v, w1)) = snd p"
  by (cases p; cases "fst p") auto

lemma requests_get_jobs_handler:
  "requests (snd (get_jobs_handler stringify api args w))
     = requests w @ [GET ''/jobs'' (getJobs_params args)]"
  by (cases args) (simp add: get_jobs_handler_def snd_case_outcome getJobs_def requests_call)

text \<open>
  The four handlers written with \<open>try\<close> and \<open>catch\<close> never reject: whatever the adapter
  does, they return an envelope (the PDF tool may stay pending with its parser).
\<close>

lemma create_application_handler_returns:
  "\<exists>r. fst (create_application_handler api a w) = Inr r"
  unfolding create_application_handler_def by (simp split: prod.splits sum.splits)

lemma get_applications_handler_returns:
  "\<exists>r. fst (get_applications_handler stringify api j v s p pp w) = Inr r"
  unfolding get_applications_handler_def by (simp split: prod.splits sum.splits)

lemma get_application_by_id_handler_returns:
  "\<exists>r. fst (get_application_by_id_handler stringify api ident w) = Inr r"
  unfolding get_application_by_id_handler_def by (simp split: prod.splits sum.splits)

lemma parse_cv_from_url_handler_never_rejects:
  "fst (parse_cv_from_url_handler download parseBuffer url w) \<noteq> Some (Inl e)"
  unfolding parse_cv_from_url_handler_def by (simp split: prod.splits sum.splits option.splits)

text \<open>
  C2. The handlers of \<open>get-jobs\<close> and \<open>get-job\<close> have no \<open>try\<close>: when the adapter
  throws, here on a network error, their promise rejects with the adapter's error and
  no envelope is returned.
\<close>

theorem unguarded_handlers_reject:
  "fst (get_jobs_handler (\<lambda>v. ''{}'')
          (\<lambda>h r. Inl \<lparr>message = ''Network Error'', response_data = None\<rparr>)
          \<lparr>page = Some 1, per_page = Some 20, search = None, status = None,
           employment_type = None, workplace_type = None\<rparr>
          \<lparr>requests = [], console = []\<rparr>)
     = Inl \<lparr>message = ''Network Error'', response_data = None\<rparr>
   \<and> fst (get_job_handler (\<lambda>v. ''{}'')
          (\<lambda>h r. Inl \<lparr>message = ''Network Error'', response_data = None\<rparr>)
          ''42'' \<lparr>requests = [], console = []\<rparr>)
     = Inl \<lparr>message = ''Network Error'', response_data = None\<rparr>"
  by (simp add: get_jobs_handler_def get_job_handler_def getJobs_def getJobById_def call_def send_def)

text \<open>
  C9. An invocation of \<open>get-jobs\<close> that passes the schema and has neither \<open>page\<close> nor
  \<open>per_page\<close> reaches the handler with \<open>page = 1\<close> and \<open>per_page = 20\<close>, and the one
  request it issues is a GET of \<open>/jobs\<close> whose parameters hold \<open>page[number] = 1\<close> and
  \<open>page[size] = 20\<close>.
\<close>

theorem get_jobs_defaults:
  "page raw = None \<Longrightarrow> per_page raw = None \<Longrightarrow> get_jobs_schema raw \<noteq> None \<Longrightarrow>
     get_jobs_schema raw = Some (raw\<lparr>page := Some 1, per_page := Some 20\<rparr>)
     \<and> requests (snd (get_jobs_tool stringify api raw w))
         = requests w @ [GET ''/jobs'' (getJobs_params (raw\<lparr>page := Some 1, per_page := Some 20\<rparr>))]
     \<and> map_of (getJobs_params (raw\<lparr>page := Some 1, per_page := Some 20\<rparr>)) ''page[number]'' = Some ''1''
     \<and> map_of (getJobs_params (raw\<lparr>page := Some 1, per_page := Some 20\<rparr>)) ''page[size]'' = Some ''20''"
proof -
  assume a: "page raw = None" "per_page raw = None" "get_jobs_schema raw \<noteq> None"
  then have s: "get_jobs_schema raw = Some (raw\<lparr>page := Some 1, per_page := Some 20\<rparr>)"
    by (simp add: get_jobs_schema_def split: if_splits)
  have r: "requests (snd (get_jobs_tool stringify api raw w))
         = requests w @ [GET ''/jobs'' (getJobs_params (raw\<lparr>page := Some 1, per_page := Some 20\<rparr>))]"
    using requests_get_jobs_handler [of stringify api "raw\<lparr>page := Some 1, per_page := Some 20\<rparr>" w]
    by (cases "get_jobs_handler stringify api (raw\<lparr>page := Some 1, per_page := Some 20\<rparr>) w")
      (simp add: get_jobs_tool_def s)
  show ?thesis
    using s r unfolding getJobs_params_lookup by (simp add: toString_1 toString_20)
qed

theorem get_jobs_defaults_witness:
  "get_jobs_schema \<lparr>page = None, per_page = None, search = Some ''engineer'', status = Some ''open'',
       employment_type = None, workplace_type = Some ''remote''\<rparr>
     = Some \<lparr>page = Some 1, per_page = Some 20, search = Some ''engineer'', status = Some ''open'',
       employment_type = None, workplace_type = Some ''remote''\<rparr>
   \<and> requests (snd (get_jobs_tool (\<lambda>v. ''{}'') (\<lambda>h r. Inr (JObj []))
        \<lparr>page = None, per_page = None, search = Some ''engineer'', status = Some ''open'',
         employment_type = None, workplace_type = Some ''remote''\<rparr>
        \<lparr>requests = [], console = []\<rparr>))
     = [GET ''/jobs'' [(''filter[search]'', ''engineer''), (''filter[status]'', ''open''),
          (''filter[workplace_type]'', ''remote''), (''page[number]'', ''1''), (''page[size]'', ''20'')]]"
  using get_jobs_defaults
    [of "\<lparr>page = None, per_page = None, search = Some ''engineer'', status = Some ''open'',
         employment_type = None, workplace_type = Some ''remote''\<rparr>"
        "\<lambda>v. ''{}''" "\<lambda>h r. Inr (JObj [])" "\<lparr>requests = [], console = []\<rparr>"]
  by (simp add: get_jobs_schema_def getJobs_params_def toString_1 toString_20)

end
